theory Spec2Isabelle
  imports Complex_Main
begin

section \<open>The miner control coordinator of \<^verbatim>\<open>src/gui/gui.go\<close>\<close>

text \<open>
  A shallow embedding of the Go type \<^verbatim>\<open>GUI\<close> and of its methods
  \<^verbatim>\<open>New\<close>, \<^verbatim>\<open>handleElectronCommands\<close>, \<^verbatim>\<open>configureMiner\<close>, \<^verbatim>\<open>startMiner\<close>,
  \<^verbatim>\<open>stopMiner\<close>, \<^verbatim>\<open>updateNetworkStats\<close> and \<^verbatim>\<open>updateMiningStatsLoop\<close>.

  \<^item> A Go \<^verbatim>\<open>error\<close> is represented by its message; \<^verbatim>\<open>nil\<close> is \<open>None\<close>.
  \<^item> A method takes the \<^verbatim>\<open>GUI\<close> value and gives back how the call ended, together with
    the list of externally visible effects it performed, in order.
  \<^item> A call ends in one of three ways: it returns (with the updated \<^verbatim>\<open>GUI\<close>), the
    process exits (\<^verbatim>\<open>logger.Fatalf\<close> and \<^verbatim>\<open>log.Fatalf\<close> call \<^verbatim>\<open>os.Exit(1)\<close>), or the
    goroutine panics (a method call through a nil interface, a field read through a nil pointer).
  \<^item> The packages outside this file (the miner backends, the pool API client, the
    configuration store, JSON, the OS) are collaborators: their answers are fields of the
    record \<open>world\<close>, and the answers of one backend instance are fields of \<open>Miner\<close>.
  \<^item> Log lines are not part of the model, apart from the exit of \<^verbatim>\<open>Fatalf\<close>.
  \<^item> \<^verbatim>\<open>float64\<close> hash rates are reals: the code only copies them and compares them with 0.
\<close>

subsection \<open>Data\<close>

type_synonym error = string

definition quoted :: "string \<Rightarrow> string" where
  \<comment> \<open>the format \<^verbatim>\<open>'%s'\<close>\<close>
  "quoted s = CHR 0x27 # s @ [CHR 0x27]"

text \<open>\<^verbatim>\<open>miner.ProcessingConfig\<close>, \<^verbatim>\<open>miner.Config\<close> and \<^verbatim>\<open>miner.Stats\<close>: the fields this file uses.\<close>

record ProcessingConfig =
  Threads :: int
  MaxUsage :: int

record miner_Config =
  mc_Type :: string
  mc_Path :: string
  mc_HardwareType :: int

record Stats =
  Hashrate :: real
  st_Address :: string
  UpdateGraph :: bool

text \<open>
  The interface \<^verbatim>\<open>miner.Miner\<close>. An instance is given by what its methods answer;
  \<^verbatim>\<open>GetStats\<close>, whose answer changes from call to call, is answered by the caller's input.
\<close>

record Miner =
  GetName :: string
  Start :: "error option"
  Stop :: "error option"
  GetProcessingConfig :: ProcessingConfig
  WriteConfig :: "string \<Rightarrow> string \<Rightarrow> string \<Rightarrow> string \<Rightarrow> string \<Rightarrow> ProcessingConfig \<Rightarrow> error option"

text \<open>The pool descriptor of the pool API: the fields \<^verbatim>\<open>configureMiner\<close> reads.\<close>

record MiningPorts =
  Cpu :: string
  Gpu :: string

record PoolData =
  pool_ID :: string
  pool_Config :: string
  pool_MiningPorts :: MiningPorts

text \<open>\<^verbatim>\<open>Config\<close> (the session) and \<^verbatim>\<open>frontendConfig\<close> (what the front-end sends and receives).\<close>

record Config =
  APIEndpoint :: string
  CoinType :: string
  CoinAlgo :: string
  XmrigAlgo :: string
  XmrigVariant :: string
  Address :: string
  PoolID :: string
  HardwareType :: int
  Mid :: string
  Miner_cfg :: miner_Config

record frontendConfig =
  fc_Address :: string
  fc_Pool :: string
  fc_CoinType :: string
  fc_CoinAlgo :: string
  fc_XmrigAlgo :: string
  fc_XmrigVariant :: string
  fc_HardwareType :: int
  fc_Threads :: int
  fc_MaxCPU :: int

text \<open>The fields of \<^verbatim>\<open>GUI\<close> that carry state; the window, the logger and the tickers are not data.\<close>

record GUI =
  config :: "Config option"
  inDebugMode :: bool
  miner :: "Miner option"
  workingDir :: string
  lastHashrate :: real

text \<open>The collaborators.\<close>

record world =
  user_Current :: "error + string \<times> string"
  filepath_Join :: "string \<Rightarrow> string \<Rightarrow> string"
  DetermineMinerType :: "string \<Rightarrow> error + string \<times> string"
  CreateMiner :: "miner_Config \<Rightarrow> error + Miner"
  json_Unmarshal :: "string \<Rightarrow> error + frontendConfig"
  json_Marshal_frontendConfig :: "frontendConfig \<Rightarrow> error + string"
  json_Marshal_ProcessingConfig :: "ProcessingConfig \<Rightarrow> error + string"
  GetPoolList :: "Config \<Rightarrow> error + PoolData list"
  GetPoolTemplate :: "error + (PoolData \<Rightarrow> error + string)"
  GetPool :: "Config \<Rightarrow> string \<Rightarrow> error + PoolData"
  GetCoinContentJson :: "error + string"
  SaveConfig :: "Config \<Rightarrow> error option"
  GetStats :: "Config \<Rightarrow> string \<Rightarrow> real \<Rightarrow> string \<Rightarrow> error + string"
  uuid_New :: string
  OpenFile_debug_log :: "error option"

subsection \<open>Effects and outcomes\<close>

datatype payload =
    ElectronMessage string
  | MinerStats Stats
  | NetworkStats string

datatype effect =
    SendMessage string payload
  | Sleep nat
  | MinerStart
  | MinerStop
  | MinerGetStats
  | MinerGetProcessingConfig
  | MinerWriteConfig string string string string string ProcessingConfig
  | FetchNetworkStats string real string
  | SaveConfigFile Config

datatype 'a outcome = Return 'a GUI | Exit | Panic

definition sendElectronCommand :: "string \<Rightarrow> string \<Rightarrow> effect" where
  "sendElectronCommand name data = SendMessage name (ElectronMessage data)"

subsection \<open>Start and stop\<close>

definition startMiner :: "GUI \<Rightarrow> unit outcome \<times> effect list" where
  "startMiner gui =
     (case miner gui of
        None \<Rightarrow> (Panic, [])
      | Some m \<Rightarrow>
          (case Start m of
             Some err \<Rightarrow>
               (Exit,
                [MinerStart,
                 sendElectronCommand ''fatal_error''
                   (''Unable to start '' @ quoted (GetName m) @ '' miner, please check that you ''
                    @ ''can run the miner from your installation directory.''
                    @ ''<br/>The error was '' @ quoted err),
                 Sleep 15])
           | None \<Rightarrow> (Return () gui, [MinerStart])))"

definition stopMiner :: "GUI \<Rightarrow> error option outcome \<times> effect list" where
  "stopMiner gui =
     (case miner gui of
        None \<Rightarrow> (Return None gui, [])
      | Some m \<Rightarrow>
          (case Stop m of
             Some err \<Rightarrow>
               (Return (Some err) gui,
                [MinerStop,
                 sendElectronCommand ''fatal_error''
                   (''Unable to stop miner..''
                    @ ''Please close the GUI miner and open it again.''
                    @ ''<br/>The error was '' @ quoted err)])
           | None \<Rightarrow> (Return None gui, [MinerStop])))"

subsection \<open>Apply configuration\<close>

definition fatal :: "string \<Rightarrow> effect list" where
  \<comment> \<open>the fatal-error event, then the pause that lets the front-end show it\<close>
  "fatal msg = [sendElectronCommand ''fatal_error'' msg, Sleep 15]"

definition update_session :: "Config \<Rightarrow> frontendConfig \<Rightarrow> Config" where
  "update_session c newConfig =
     c\<lparr>Address := fc_Address newConfig,
       PoolID := fc_Pool newConfig,
       CoinType := fc_CoinType newConfig,
       CoinAlgo := fc_CoinAlgo newConfig,
       XmrigAlgo := fc_XmrigAlgo newConfig,
       XmrigVariant := fc_XmrigVariant newConfig,
       HardwareType := fc_HardwareType newConfig\<rparr>"

definition select_poolAddress :: "Config \<Rightarrow> PoolData \<Rightarrow> string" where
  "select_poolAddress c poolInfo =
     (if HardwareType c = 1 then Cpu (pool_MiningPorts poolInfo)
      else if HardwareType c = 2 then Gpu (pool_MiningPorts poolInfo)
      else pool_Config poolInfo)"

definition write_and_save ::
    "world \<Rightarrow> GUI \<Rightarrow> Config \<Rightarrow> Miner \<Rightarrow> frontendConfig \<Rightarrow> PoolData \<Rightarrow> unit outcome \<times> effect list" where
  \<comment> \<open>the end of \<^verbatim>\<open>configureMiner\<close>, from the choice of the pool address on\<close>
  "write_and_save w gui c m newConfig poolInfo =
     (let poolAddress = select_poolAddress c poolInfo;
          pc = \<lparr>Threads = fc_Threads newConfig, MaxUsage = fc_MaxCPU newConfig\<rparr>;
          call = MinerWriteConfig poolAddress (Address c) (CoinAlgo c) (XmrigAlgo c) (XmrigVariant c) pc
      in case WriteConfig m poolAddress (Address c) (CoinAlgo c) (XmrigAlgo c) (XmrigVariant c) pc of
           Some err \<Rightarrow>
             (Exit,
              call # fatal (''Unable to configure miner.''
                @ ''Please check that you are connected to the internet.''
                @ ''<br/>The error was '' @ quoted err))
         | None \<Rightarrow>
             (case SaveConfig w c of
                Some err \<Rightarrow>
                  (Exit,
                   [call, SaveConfigFile c] @ fatal (''Unable to configure miner.''
                     @ ''Please check that you can write to the miner's installation path.''
                     @ ''<br/>The error was '' @ quoted err))
              | None \<Rightarrow> (Return () gui, [call, SaveConfigFile c])))"

definition configureMiner :: "world \<Rightarrow> GUI \<Rightarrow> string \<Rightarrow> unit outcome \<times> effect list" where
  "configureMiner w gui cmd_payload =
     (case json_Unmarshal w cmd_payload of
        Inl err \<Rightarrow>
          (Exit, fatal (''Unable to configure miner.''
             @ ''Please check your configuration is valid.''
             @ ''<br/>The error was '' @ quoted err))
      | Inr newConfig \<Rightarrow>
          (case config gui of
             None \<Rightarrow> (Panic, [])
           | Some c0 \<Rightarrow>
               (let c1 = update_session c0 newConfig;
                    scanPath = filepath_Join w (workingDir gui) ''miner''
                in case DetermineMinerType w scanPath of
                     Inl err \<Rightarrow>
                       (Exit, fatal (''Unable to configure miner.''
                          @ ''Could not determine the miner type.''
                          @ ''<br/>The error was '' @ quoted err))
                   | Inr (minerType, minerPath) \<Rightarrow>
                       (let c2 = c1\<lparr>Miner_cfg :=
                                   \<lparr>mc_Type = minerType, mc_Path = minerPath,
                                    mc_HardwareType = HardwareType c1\<rparr>\<rparr>
                        in case CreateMiner w (Miner_cfg c2) of
                             Inl err \<Rightarrow>
                               (Exit, fatal (''Unable to configure miner.''
                                  @ ''<br/>The error was '' @ quoted err))
                           | Inr m \<Rightarrow>
                               (case GetPool w c2 (PoolID c2) of
                                  Inl err \<Rightarrow>
                                    (Exit, fatal (''Unable to configure miner.''
                                       @ ''Please check that you are connected to the internet.''
                                       @ ''<br/>The error was '' @ quoted err))
                                | Inr poolInfo \<Rightarrow>
                                    write_and_save w
                                      (gui\<lparr>config := Some c2, miner := Some m\<rparr>)
                                      c2 m newConfig poolInfo)))))"

subsection \<open>The network statistics update\<close>

definition updateNetworkStats :: "world \<Rightarrow> GUI \<Rightarrow> effect list" where
  "updateNetworkStats w gui =
     (case config gui of
        None \<Rightarrow> []
      | Some c \<Rightarrow>
          (case GetStats w c (PoolID c) (lastHashrate gui) (Mid c) of
             Inl err \<Rightarrow> [FetchNetworkStats (PoolID c) (lastHashrate gui) (Mid c)]
           | Inr stats \<Rightarrow>
               [FetchNetworkStats (PoolID c) (lastHashrate gui) (Mid c),
                SendMessage ''network_stats'' (NetworkStats stats)]))"

subsection \<open>Construction\<close>

datatype new_result = Created GUI | Failed error | NewPanic

definition New ::
    "world \<Rightarrow> Config option \<Rightarrow> string \<Rightarrow> string \<Rightarrow> string \<Rightarrow> string \<Rightarrow> string \<Rightarrow> string \<Rightarrow> bool
      \<Rightarrow> new_result" where
  \<comment> \<open>the arguments that only reach the window (\<^verbatim>\<open>appName\<close>, \<^verbatim>\<open>asset\<close>, \<^verbatim>\<open>restoreAssets\<close>)
      are left out; \<^verbatim>\<open>panic(err)\<close> is the failure to open \<^verbatim>\<open>debug.log\<close> in debug mode\<close>
  "New w cfg apiEndpoint coinType coinAlgo xmrigAlgo xmrigVariant wd isDebug =
     (if apiEndpoint = [] then Failed ''The API Endpoint must be specified''
      else
        (case cfg of
           Some c \<Rightarrow>
             (let c' = c\<lparr>Miner_cfg := (Miner_cfg c)\<lparr>mc_HardwareType := HardwareType c\<rparr>\<rparr>
              in case CreateMiner w (Miner_cfg c') of
                   Inl err \<Rightarrow>
                     Failed (''Unable to use '' @ quoted (mc_Type (Miner_cfg c')) @ '' as miner: '' @ err)
                 | Inr m \<Rightarrow>
                     (if isDebug \<and> OpenFile_debug_log w \<noteq> None then NewPanic
                      else Created \<lparr>config = Some c', inDebugMode = isDebug, miner = Some m,
                                    workingDir = wd, lastHashrate = 0\<rparr>))
         | None \<Rightarrow>
             (if isDebug \<and> OpenFile_debug_log w \<noteq> None then NewPanic
              else Created
                \<lparr>config = Some
                   \<lparr>APIEndpoint = apiEndpoint, CoinType = coinType, CoinAlgo = coinAlgo,
                    XmrigAlgo = xmrigAlgo, XmrigVariant = xmrigVariant,
                    Address = [], PoolID = [], HardwareType = 1, Mid = uuid_New w,
                    Miner_cfg = \<lparr>mc_Type = [], mc_Path = [], mc_HardwareType = 0\<rparr>\<rparr>,
                 inDebugMode = isDebug, miner = None, workingDir = wd, lastHashrate = 0\<rparr>)))"

subsection \<open>The command dispatcher\<close>

datatype reply = NoResult | Text string

type_synonym dispatched = "(reply \<times> error option) outcome \<times> effect list"

definition unknown_command :: "string \<Rightarrow> reply \<times> error option" where
  \<comment> \<open>the statement after the \<^verbatim>\<open>switch\<close>\<close>
  "unknown_command name = (NoResult, Some (quoted name @ '' is an unknown command''))"

definition cmd_get_username :: "world \<Rightarrow> GUI \<Rightarrow> dispatched" where
  "cmd_get_username w gui =
     (let username =
            (case user_Current w of
               Inl err \<Rightarrow> []
             | Inr (Name, Username) \<Rightarrow>
                 (if Name \<noteq> [] then Name else if Username \<noteq> [] then Username else []))
      in (Return (Text username, None) gui, []))"

definition cmd_get_miner_type :: "world \<Rightarrow> GUI \<Rightarrow> dispatched" where
  "cmd_get_miner_type w gui =
     (case DetermineMinerType w (filepath_Join w (workingDir gui) ''miner'') of
        Inr (minerType, minerPath) \<Rightarrow> (Return (Text minerType, None) gui, [])
      | Inl err \<Rightarrow> (Return (Text [], None) gui, []))"

fun render_pools :: "(PoolData \<Rightarrow> error + string) \<Rightarrow> nat \<Rightarrow> PoolData list \<Rightarrow> string \<Rightarrow> string option" where
  \<comment> \<open>the loop over \<^verbatim>\<open>poolJSONs\<close>, from index \<open>i\<close> on; \<open>None\<close> is the exit of \<^verbatim>\<open>log.Fatalf\<close>.
      The body of \<^verbatim>\<open>if i == 3\<close> holds two commented-out lines and nothing else.\<close>
  "render_pools exec i [] poolsList = Some poolsList"
| "render_pools exec i (poolData # rest) poolsList =
     (case exec poolData of
        Inl err \<Rightarrow> None
      | Inr templateHTML \<Rightarrow>
          render_pools exec (i + 1) rest ((if i = 3 then poolsList else poolsList) @ templateHTML))"

definition cmd_get_pools_list :: "world \<Rightarrow> GUI \<Rightarrow> string \<Rightarrow> dispatched" where
  "cmd_get_pools_list w gui cmd_payload =
     (case json_Unmarshal w cmd_payload of
        Inl err \<Rightarrow>
          (Exit,
           [sendElectronCommand ''fatal_error''
              (''Unable to fetch pool list from API.''
               @ ''Internal error.''
               @ ''<br/>The error was '' @ quoted err)])
      | Inr newConfig \<Rightarrow>
          (case config gui of
             None \<Rightarrow> (Panic, [])
           | Some c0 \<Rightarrow>
               (let c = c0\<lparr>CoinType := fc_CoinType newConfig\<rparr>;
                    gui' = gui\<lparr>config := Some c\<rparr>
                in case GetPoolList w c of
                     Inl err \<Rightarrow>
                       (Exit,
                        fatal (''Unable to fetch pool list from API.''
                          @ ''Please check that you are connected to the internet and try again.''
                          @ ''<br/>The error was '' @ quoted err))
                   | Inr poolJSONs \<Rightarrow>
                       (case GetPoolTemplate w of
                          Inl err \<Rightarrow> (Exit, [])
                        | Inr exec \<Rightarrow>
                            (case render_pools exec 0 poolJSONs [] of
                               None \<Rightarrow> (Exit, [])
                             | Some poolsList \<Rightarrow>
                                 (Return (Text (poolsList @ ''</div>''), None) gui', []))))))"

definition cmd_get_processing_config :: "world \<Rightarrow> GUI \<Rightarrow> dispatched" where
  "cmd_get_processing_config w gui =
     (case miner gui of
        None \<Rightarrow>
          (Return (Text [], None) gui,
           [sendElectronCommand ''fatal_error''
              (''Unable to fetch miner config.''
               @ ''Please check that your miner is working and running.'')])
      | Some m \<Rightarrow>
          (case json_Marshal_ProcessingConfig w (GetProcessingConfig m) of
             Inl err \<Rightarrow>
               (Return (Text [], None) gui,
                [MinerGetStats, MinerGetProcessingConfig,
                 sendElectronCommand ''fatal_error''
                   (''Unable to fetch miner config.''
                    @ ''Please check that your miner is working and running.''
                    @ ''<br/>The error was '' @ quoted err)])
           | Inr configBytes \<Rightarrow>
               (Return (Text configBytes, None) gui, [MinerGetStats, MinerGetProcessingConfig])))"

definition cmd_get_coins_content :: "world \<Rightarrow> GUI \<Rightarrow> dispatched" where
  "cmd_get_coins_content w gui =
     (case GetCoinContentJson w of
        Inl err \<Rightarrow> (Return (Text [], None) gui, [])
      | Inr dataBytes \<Rightarrow> (Return (Text dataBytes, None) gui, []))"

definition cmd_save_configuration :: "world \<Rightarrow> GUI \<Rightarrow> string \<Rightarrow> dispatched" where
  "cmd_save_configuration w gui cmd_payload =
     (case configureMiner w gui cmd_payload of
        (Return u gui', es) \<Rightarrow> (Return (Text ''Ok'', None) gui', Sleep 3 # es)
      | (Exit, es) \<Rightarrow> (Exit, Sleep 3 # es)
      | (Panic, es) \<Rightarrow> (Panic, Sleep 3 # es))"

definition cmd_get_config_file :: "world \<Rightarrow> GUI \<Rightarrow> dispatched" where
  "cmd_get_config_file w gui =
     (case config gui of
        None \<Rightarrow> (Panic, [])
      | Some c \<Rightarrow>
          (let currentConfig =
                 \<lparr>fc_Address = [], fc_Pool = [],
                  fc_CoinType = CoinType c, fc_CoinAlgo = CoinAlgo c,
                  fc_XmrigAlgo = XmrigAlgo c, fc_XmrigVariant = XmrigVariant c,
                  fc_HardwareType = HardwareType c, fc_Threads = 0, fc_MaxCPU = 0\<rparr>
           in case json_Marshal_frontendConfig w currentConfig of
                Inl err \<Rightarrow> (Return (Text [], None) gui, [])
              | Inr dataBytes \<Rightarrow> (Return (Text dataBytes, None) gui, [])))"

definition cmd_start_miner :: "GUI \<Rightarrow> string \<Rightarrow> dispatched" where
  \<comment> \<open>the case has no \<^verbatim>\<open>return\<close>: control leaves the \<^verbatim>\<open>switch\<close>\<close>
  "cmd_start_miner gui name =
     (case startMiner gui of
        (Return u gui', es) \<Rightarrow> (Return (unknown_command name) gui', es)
      | (Exit, es) \<Rightarrow> (Exit, es)
      | (Panic, es) \<Rightarrow> (Panic, es))"

definition cmd_stop_miner :: "GUI \<Rightarrow> string \<Rightarrow> dispatched" where
  "cmd_stop_miner gui name =
     (case stopMiner gui of
        (Return (Some err) gui', es) \<Rightarrow>
          (Exit,
           es @ fatal (''Unable to stop miner backend.''
                  @ ''Please close the miner and open it again.''
                  @ ''<br/>The error was '' @ quoted err))
      | (Return None gui', es) \<Rightarrow> (Return (unknown_command name) gui', es)
      | (Exit, es) \<Rightarrow> (Exit, es)
      | (Panic, es) \<Rightarrow> (Panic, es))"

definition handleElectronCommands :: "world \<Rightarrow> GUI \<Rightarrow> string \<Rightarrow> string \<Rightarrow> dispatched" where
  \<comment> \<open>\<open>name\<close> and \<open>cmd_payload\<close> are \<^verbatim>\<open>command.Name\<close> and \<^verbatim>\<open>command.Payload\<close>\<close>
  "handleElectronCommands w gui name cmd_payload =
     (if name = ''get-username'' then cmd_get_username w gui
      else if name = ''get-miner-path'' then
        (Return (Text (filepath_Join w (workingDir gui) ''miner''), None) gui, [])
      else if name = ''get-miner-type'' then cmd_get_miner_type w gui
      else if name = ''get-pools-list'' then cmd_get_pools_list w gui cmd_payload
      else if name = ''get-processing-config'' then cmd_get_processing_config w gui
      else if name = ''get-coins-content'' then cmd_get_coins_content w gui
      else if name = ''save-configuration'' then cmd_save_configuration w gui cmd_payload
      else if name = ''get-config-file'' then cmd_get_config_file w gui
      else if name = ''start-miner'' then cmd_start_miner gui name
      else if name = ''stop-miner'' then cmd_stop_miner gui name
      else (Return (unknown_command name) gui, []))"

definition Run :: "error option \<Rightarrow> GUI \<Rightarrow> error option outcome \<times> effect list" where
  \<comment> \<open>\<open>bootstrap_Run\<close> is what \<^verbatim>\<open>bootstrap.Run\<close> answers once the window has closed\<close>
  "Run bootstrap_Run gui =
     (case bootstrap_Run of
        Some err \<Rightarrow> (Return (Some err) gui, [])
      | None \<Rightarrow> stopMiner gui)"

subsection \<open>The local statistics loop\<close>

text \<open>
  One delivery of the ticker: what \<^verbatim>\<open>gui.miner.GetStats()\<close> answers if it is asked, and the
  two clock readings of the iteration, in nanoseconds: the one inside
  \<^verbatim>\<open>time.Since(lastGraphUpdate)\<close> and the one of \<^verbatim>\<open>lastGraphUpdate = time.Now()\<close>.
  A \<^verbatim>\<open>time.Duration\<close> counts nanoseconds, and \<^verbatim>\<open>d.Minutes() >= 1\<close> holds exactly when
  \<open>d\<close> is at least \<open>Minute\<close>.
\<close>

record tick =
  tick_stats :: "error + Stats"
  tick_since :: int
  tick_now :: int

definition Minute :: int where
  "Minute = 60 * 1000000000"

definition miningStatsTick :: "world \<Rightarrow> tick \<Rightarrow> GUI \<Rightarrow> int \<Rightarrow> int outcome \<times> effect list" where
  \<comment> \<open>the body of the loop; the value carried is \<^verbatim>\<open>lastGraphUpdate\<close>\<close>
  "miningStatsTick w t gui lastGraphUpdate =
     (case miner gui of
        None \<Rightarrow> (Return lastGraphUpdate gui, [])
      | Some m \<Rightarrow>
          (case tick_stats t of
             Inl err \<Rightarrow> (Return lastGraphUpdate gui, [MinerGetStats])
           | Inr stats \<Rightarrow>
               (let first = (lastHashrate gui = 0 \<and> Hashrate stats > 0);
                    es = (if first
                          then updateNetworkStats w (gui\<lparr>lastHashrate := Hashrate stats\<rparr>)
                          else []);
                    gui' = gui\<lparr>lastHashrate := Hashrate stats\<rparr>
                in case config gui' of
                     None \<Rightarrow> (Panic, MinerGetStats # es)
                   | Some c \<Rightarrow>
                       (let stats1 = stats\<lparr>st_Address := Address c\<rparr>;
                            due = (tick_since t - lastGraphUpdate \<ge> Minute);
                            lastGraphUpdate' = (if due then tick_now t else lastGraphUpdate);
                            stats2 = (if due then stats1\<lparr>UpdateGraph := True\<rparr> else stats1)
                        in (Return lastGraphUpdate' gui',
                            MinerGetStats # es @ [SendMessage ''miner_stats'' (MinerStats stats2)])))))"

fun miningStatsTicks :: "world \<Rightarrow> tick list \<Rightarrow> GUI \<Rightarrow> int \<Rightarrow> int outcome \<times> effect list" where
  "miningStatsTicks w [] gui lastGraphUpdate = (Return lastGraphUpdate gui, [])"
| "miningStatsTicks w (t # ts) gui lastGraphUpdate =
     (case miningStatsTick w t gui lastGraphUpdate of
        (Return lastGraphUpdate' gui', es) \<Rightarrow>
          (case miningStatsTicks w ts gui' lastGraphUpdate' of (r, es') \<Rightarrow> (r, es @ es'))
      | (Exit, es) \<Rightarrow> (Exit, es)
      | (Panic, es) \<Rightarrow> (Panic, es))"

definition updateMiningStatsLoop :: "world \<Rightarrow> int \<Rightarrow> tick list \<Rightarrow> GUI \<Rightarrow> int outcome \<times> effect list" where
  \<comment> \<open>\<open>now\<close> is the reading of \<^verbatim>\<open>lastGraphUpdate := time.Now()\<close> before the loop; the list is
      the deliveries of the ticker so far\<close>
  "updateMiningStatsLoop w now ticks gui = miningStatsTicks w ticks gui now"

text \<open>Reading a run of the loop: the network fetches it made, the hash rate it left.\<close>

fun is_fetch :: "effect \<Rightarrow> bool" where
  "is_fetch (FetchNetworkStats p h m) = True"
| "is_fetch e = False"

definition fetches :: "'a outcome \<times> effect list \<Rightarrow> nat" where
  "fetches r = length (filter is_fetch (snd r))"

fun hashrate_after :: "'a outcome \<times> effect list \<Rightarrow> real option" where
  "hashrate_after (Return x gui, es) = Some (lastHashrate gui)"
| "hashrate_after (r, es) = None"

fun is_hinted :: "effect \<Rightarrow> bool" where
  "is_hinted (SendMessage name (MinerStats s)) = (name = ''miner_stats'' \<and> UpdateGraph s)"
| "is_hinted e = False"

fun hint_times :: "world \<Rightarrow> tick list \<Rightarrow> GUI \<Rightarrow> int \<Rightarrow> (int \<times> int) list" where
  \<comment> \<open>the two clock readings of each iteration whose emission carries the hint\<close>
  "hint_times w [] gui lastGraphUpdate = []"
| "hint_times w (t # ts) gui lastGraphUpdate =
     (case miningStatsTick w t gui lastGraphUpdate of
        (Return lastGraphUpdate' gui', es) \<Rightarrow>
          (if list_ex is_hinted es then [(tick_since t, tick_now t)] else [])
          @ hint_times w ts gui' lastGraphUpdate'
      | (Exit, es) \<Rightarrow> []
      | (Panic, es) \<Rightarrow> [])"

fun spaced :: "int \<Rightarrow> (int \<times> int) list \<Rightarrow> bool" where
  \<comment> \<open>each hint is checked at least a minute after the reading stored by the one before\<close>
  "spaced last_set [] = True"
| "spaced last_set ((since, now) # xs) = (since - last_set \<ge> Minute \<and> spaced now xs)"

definition backend_hint_clear :: "tick \<Rightarrow> bool" where
  \<comment> \<open>the backend leaves \<^verbatim>\<open>UpdateGraph\<close> at its zero value\<close>
  "backend_hint_clear t = (case tick_stats t of Inl err \<Rightarrow> True | Inr s \<Rightarrow> \<not> UpdateGraph s)"

fun latest_hashrate :: "real \<Rightarrow> tick list \<Rightarrow> real" where
  \<comment> \<open>the hash rate of the last answered query, or \<open>h\<close> when there is none\<close>
  "latest_hashrate h [] = h"
| "latest_hashrate h (t # ts) =
     latest_hashrate (case tick_stats t of Inl err \<Rightarrow> h | Inr s \<Rightarrow> Hashrate s) ts"

fun is_fatal_error :: "effect \<Rightarrow> bool" where
  "is_fatal_error (SendMessage name p) = (name = ''fatal_error'')"
| "is_fatal_error e = False"

definition fatal_errors :: "'a outcome \<times> effect list \<Rightarrow> nat" where
  "fatal_errors r = length (filter is_fatal_error (snd r))"

subsection \<open>A concrete installation\<close>

text \<open>
  One backend, one pool with the three endpoints, and collaborators that always answer;
  the decoder answers \<open>decoded\<close> and the pool list is \<open>pools\<close>.
\<close>

definition example_miner :: "error option \<Rightarrow> Miner" where
  "example_miner stop_answer =
     \<lparr>GetName = ''xmrig'', Start = None, Stop = stop_answer,
      GetProcessingConfig = \<lparr>Threads = 4, MaxUsage = 80\<rparr>,
      WriteConfig = (\<lambda>poolAddress address coinAlgo xmrigAlgo xmrigVariant pc. None)\<rparr>"

definition example_pool :: "string \<Rightarrow> PoolData" where
  "example_pool ident =
     \<lparr>pool_ID = ident, pool_Config = ''p1:3333'',
      pool_MiningPorts = \<lparr>Cpu = ''p1:1111'', Gpu = ''p1:2222''\<rparr>\<rparr>"

definition example_payload :: "int \<Rightarrow> frontendConfig" where
  "example_payload hardwareType =
     \<lparr>fc_Address = ''addr1'', fc_Pool = ''pool1'', fc_CoinType = ''BLOC'',
      fc_CoinAlgo = ''cryptonight'', fc_XmrigAlgo = ''cn'', fc_XmrigVariant = ''1'',
      fc_HardwareType = hardwareType, fc_Threads = 4, fc_MaxCPU = 80\<rparr>"

definition example_world :: "frontendConfig \<Rightarrow> PoolData list \<Rightarrow> world" where
  "example_world decoded pools =
     \<lparr>user_Current = Inr (''Ada'', ''ada''),
      filepath_Join = (\<lambda>a b. a @ ''/'' @ b),
      DetermineMinerType = (\<lambda>scanPath. Inr (''xmrig'', scanPath @ ''/xmrig'')),
      CreateMiner = (\<lambda>mc. Inr (example_miner None)),
      json_Unmarshal = (\<lambda>bytes. Inr decoded),
      json_Marshal_frontendConfig =
        (\<lambda>fc. Inr (fc_CoinType fc @ (if fc_HardwareType fc = 1 then '' cpu'' else '' other''))),
      json_Marshal_ProcessingConfig = (\<lambda>pc. Inr ''processing''),
      GetPoolList = (\<lambda>c. Inr pools),
      GetPoolTemplate = Inr (\<lambda>poolData. Inr (pool_ID poolData)),
      GetPool = (\<lambda>c poolID. Inr (example_pool poolID)),
      GetCoinContentJson = Inr ''content'',
      SaveConfig = (\<lambda>c. None),
      GetStats = (\<lambda>c poolID hashrate mid. Inr ''network''),
      uuid_New = ''0b5b7d3a-6f0e-4c58-9d5a-2f1c3e4d5a6b'',
      OpenFile_debug_log = None\<rparr>"

definition example_config :: Config where
  "example_config =
     \<lparr>APIEndpoint = ''https://api'', CoinType = ''XTL'', CoinAlgo = ''cryptonight'',
      XmrigAlgo = ''cn'', XmrigVariant = ''1'', Address = ''addr0'', PoolID = ''pool0'',
      HardwareType = 1, Mid = ''mid0'',
      Miner_cfg = \<lparr>mc_Type = ''xmrig'', mc_Path = ''/opt/miner/xmrig'', mc_HardwareType = 1\<rparr>\<rparr>"

definition example_gui :: "Miner option \<Rightarrow> GUI" where
  "example_gui backend =
     \<lparr>config = Some example_config, inDebugMode = False, miner = backend,
      workingDir = ''/opt'', lastHashrate = 0\<rparr>"

definition example_tick :: "real \<Rightarrow> int \<Rightarrow> tick" where
  \<comment> \<open>an answered query with the given hash rate, \<open>seconds\<close> after the start of the loop\<close>
  "example_tick h seconds =
     \<lparr>tick_stats = Inr \<lparr>Hashrate = h, st_Address = [], UpdateGraph = False\<rparr>,
      tick_since = seconds * 1000000000, tick_now = seconds * 1000000000\<rparr>"

definition five_pools :: "PoolData list" where
  "five_pools = map example_pool [''a'', ''b'', ''c'', ''d'', ''e'']"

definition example_ticks :: "tick list" where
  "example_ticks = [example_tick 5 10, example_tick 5 61, example_tick 5 70, example_tick 5 125]"

definition example_fresh_gui :: GUI where
  "example_fresh_gui =
     \<lparr>config = Some
        \<lparr>APIEndpoint = ''https://api'', CoinType = ''BLOC'', CoinAlgo = ''cryptonight'',
         XmrigAlgo = ''cn'', XmrigVariant = ''1'',
         Address = [], PoolID = [], HardwareType = 1,
         Mid = ''0b5b7d3a-6f0e-4c58-9d5a-2f1c3e4d5a6b'',
         Miner_cfg = \<lparr>mc_Type = [], mc_Path = [], mc_HardwareType = 0\<rparr>\<rparr>,
      inDebugMode = False, miner = None, workingDir = ''/opt'', lastHashrate = 0\<rparr>"

definition example_running_gui :: "real \<Rightarrow> GUI" where
  \<comment> \<open>a coordinator with a backend whose last observed hash rate is \<open>h\<close>\<close>
  "example_running_gui h = (example_gui (Some (example_miner None)))\<lparr>lastHashrate := h\<rparr>"

section \<open>Properties\<close>

subsection \<open>Stop\<close>

text \<open>
  Claim C9. A call of the Stop procedure (\<^verbatim>\<open>stopMiner\<close>) on a coordinator whose backend
  instance is nil returns success (a nil error), leaves the coordinator as it was, emits no
  UI event and performs no backend operation: the list of effects is empty.
\<close>

theorem stopMiner_without_backend:
  assumes "miner gui = None"
  shows "stopMiner gui = (Return None gui, [])"
  using assms by (simp add: stopMiner_def)

theorem stopMiner_without_backend_witness:
  "miner (example_gui None) = None
   \<and> stopMiner (example_gui None) = (Return None (example_gui None), [])"
proof -
  have h: "miner (example_gui None) = None" by (simp add: example_gui_def)
  from stopMiner_without_backend [OF h] h show ?thesis by simp
qed

text \<open>
  Claim C1, as stated, fails for the dispatch of \<^verbatim>\<open>stop-miner\<close>. With a backend whose
  \<^verbatim>\<open>Stop\<close> answers the error \<^verbatim>\<open>E\<close>, \<^verbatim>\<open>stopMiner\<close> emits one \<^verbatim>\<open>fatal_error\<close> event and
  returns the error; the \<^verbatim>\<open>stop-miner\<close> case of the dispatcher then emits a second
  \<^verbatim>\<open>fatal_error\<close> event, sleeps 15 seconds and calls \<^verbatim>\<open>logger.Fatalf\<close>: the process exits,
  the caller receives nothing, and two events were emitted.
\<close>

theorem stop_miner_dispatch_counterexample:
  "handleElectronCommands (example_world (example_payload 1) [])
      (example_gui (Some (example_miner (Some ''E'')))) ''stop-miner'' []
   = (Exit,
      [MinerStop,
       SendMessage ''fatal_error'' (ElectronMessage
         (''Unable to stop miner..Please close the GUI miner and open it again.<br/>The error was ''
          @ quoted ''E'')),
       SendMessage ''fatal_error'' (ElectronMessage
         (''Unable to stop miner backend.Please close the miner and open it again.<br/>The error was ''
          @ quoted ''E'')),
       Sleep 15])
   \<and> fatal_errors (handleElectronCommands (example_world (example_payload 1) [])
        (example_gui (Some (example_miner (Some ''E'')))) ''stop-miner'' []) = 2"
  by (simp add: handleElectronCommands_def cmd_stop_miner_def stopMiner_def example_gui_def
      example_miner_def fatal_def sendElectronCommand_def fatal_errors_def)

text \<open>
  Claim C1, amended. Whenever the backend's \<^verbatim>\<open>Stop\<close> answers an error \<^verbatim>\<open>E\<close>, the Stop
  procedure \<^verbatim>\<open>stopMiner\<close> returns \<^verbatim>\<open>E\<close> to its caller, emits exactly one \<^verbatim>\<open>fatal_error\<close>
  event, whose text ends with \<^verbatim>\<open>'E'\<close>, and does not end the process; \<^verbatim>\<open>Run\<close>, on
  shutdown, hands that result on. The dispatcher's \<^verbatim>\<open>stop-miner\<close> case, the other caller,
  follows these effects with a second \<^verbatim>\<open>fatal_error\<close> event containing \<^verbatim>\<open>E\<close> and a pause
  of 15 seconds, and the process exits.
\<close>

theorem stopMiner_reports_error:
  assumes "miner gui = Some m" and "Stop m = Some E"
  shows "stopMiner gui =
           (Return (Some E) gui,
            [MinerStop,
             SendMessage ''fatal_error'' (ElectronMessage
               (''Unable to stop miner..Please close the GUI miner and open it again.<br/>The error was ''
                @ quoted E))])
         \<and> Run None gui = stopMiner gui
         \<and> handleElectronCommands w gui ''stop-miner'' cmd_payload =
             (Exit,
              snd (stopMiner gui) @
              [SendMessage ''fatal_error'' (ElectronMessage
                 (''Unable to stop miner backend.Please close the miner and open it again.<br/>The error was ''
                  @ quoted E)),
               Sleep 15])"
  using assms
  by (simp add: handleElectronCommands_def cmd_stop_miner_def stopMiner_def Run_def fatal_def
      sendElectronCommand_def)

theorem stopMiner_reports_error_witness:
  "miner (example_gui (Some (example_miner (Some ''E'')))) = Some (example_miner (Some ''E''))
   \<and> Stop (example_miner (Some ''E'')) = Some ''E''
   \<and> fst (stopMiner (example_gui (Some (example_miner (Some ''E'')))))
       = Return (Some ''E'') (example_gui (Some (example_miner (Some ''E''))))
   \<and> fatal_errors (stopMiner (example_gui (Some (example_miner (Some ''E''))))) = 1"
proof -
  have h1: "miner (example_gui (Some (example_miner (Some ''E'')))) = Some (example_miner (Some ''E''))"
    by (simp add: example_gui_def)
  have h2: "Stop (example_miner (Some ''E'')) = Some ''E''"
    by (simp add: example_miner_def)
  from stopMiner_reports_error [OF h1 h2] h1 h2 show ?thesis
    by (simp add: fatal_errors_def)
qed

subsection \<open>Start\<close>

text \<open>
  Claim C10. Dispatching \<^verbatim>\<open>start-miner\<close> while the backend reference is nil panics:
  \<^verbatim>\<open>startMiner\<close> calls \<^verbatim>\<open>gui.miner.Start()\<close> without a nil check, where \<^verbatim>\<open>stopMiner\<close>, on
  the same coordinator, returns nil.
\<close>

theorem start_miner_without_backend_panics:
  assumes "miner gui = None"
  shows "handleElectronCommands w gui ''start-miner'' cmd_payload = (Panic, [])
         \<and> startMiner gui = (Panic, [])
         \<and> stopMiner gui = (Return None gui, [])"
  using assms
  by (simp add: handleElectronCommands_def cmd_start_miner_def startMiner_def stopMiner_def)

theorem start_miner_without_backend_panics_witness:
  "miner (example_gui None) = None
   \<and> handleElectronCommands (example_world (example_payload 1) []) (example_gui None)
        ''start-miner'' [] = (Panic, [])"
proof -
  have h: "miner (example_gui None) = None" by (simp add: example_gui_def)
  from start_miner_without_backend_panics [OF h] h show ?thesis by simp
qed

text \<open>
  Claim C2, at the input where the code departs from it. The \<^verbatim>\<open>start-miner\<close> case has no
  \<^verbatim>\<open>return\<close>, so after a successful start control reaches the statement after the
  \<^verbatim>\<open>switch\<close>: the dispatch of the recognized command \<^verbatim>\<open>start-miner\<close> returns a nil result
  and the error \<^verbatim>\<open>'start-miner' is an unknown command\<close>.
\<close>

theorem start_miner_dispatch_reports_unknown_command:
  "handleElectronCommands (example_world (example_payload 1) [])
      (example_gui (Some (example_miner None))) ''start-miner'' []
   = (Return (NoResult, Some (quoted ''start-miner'' @ '' is an unknown command''))
        (example_gui (Some (example_miner None))),
      [MinerStart])"
  by (simp add: handleElectronCommands_def cmd_start_miner_def startMiner_def example_gui_def
      example_miner_def unknown_command_def)

subsection \<open>The pool list\<close>

lemma render_pools_concat:
  "map exec pools = map Inr fragments \<Longrightarrow>
   render_pools exec i pools poolsList = Some (poolsList @ concat fragments)"
proof (induction pools arbitrary: i poolsList fragments)
  case Nil
  then show ?case by simp
next
  case (Cons p ps)
  then obtain f fs where fr: "fragments = f # fs" and first: "exec p = Inr f"
    and others: "map exec ps = map Inr fs"
    by (cases fragments) auto
  from Cons.IH [OF others] show ?case by (simp add: fr first)
qed

text \<open>
  Claim C3, as stated, fails: no marker is inserted. With five pools whose fragments are
  \<^verbatim>\<open>a\<close>, \<^verbatim>\<open>b\<close>, \<^verbatim>\<open>c\<close>, \<^verbatim>\<open>d\<close>, \<^verbatim>\<open>e\<close>, the dispatch of \<^verbatim>\<open>get-pools-list\<close> returns
  \<^verbatim>\<open>abcde</div>\<close>: the fifth fragment follows the fourth at once, and there is no
  non-empty text between them.
\<close>

theorem get_pools_list_marker_counterexample:
  "handleElectronCommands (example_world (example_payload 1) five_pools) (example_gui None)
      ''get-pools-list'' []
   = (Return (Text ''abcde</div>'', None)
        ((example_gui None)\<lparr>config := Some (example_config\<lparr>CoinType := ''BLOC''\<rparr>)\<rparr>), [])
   \<and> \<not> (\<exists>marker. marker \<noteq> [] \<and>
          handleElectronCommands (example_world (example_payload 1) five_pools) (example_gui None)
            ''get-pools-list'' []
          = (Return (Text (''abcd'' @ marker @ ''e</div>''), None)
               ((example_gui None)\<lparr>config := Some (example_config\<lparr>CoinType := ''BLOC''\<rparr>)\<rparr>), []))"
  by (simp add: handleElectronCommands_def cmd_get_pools_list_def example_world_def
      example_gui_def example_config_def example_payload_def five_pools_def example_pool_def)

text \<open>
  Claim C3, amended. A dispatch of \<^verbatim>\<open>get-pools-list\<close> whose payload decodes, whose pool
  list is fetched and whose template renders every pool sets the session's coin type to the
  payload's and returns the fragments of the pools, concatenated in the order of the list
  and followed by \<^verbatim>\<open></div>\<close>; nothing is inserted between fragments at any position, and
  no event is emitted.
\<close>

theorem get_pools_list_markup:
  assumes "json_Unmarshal w cmd_payload = Inr newConfig"
    and "config gui = Some c"
    and "GetPoolList w (c\<lparr>CoinType := fc_CoinType newConfig\<rparr>) = Inr pools"
    and "GetPoolTemplate w = Inr exec"
    and "map exec pools = map Inr fragments"
  shows "handleElectronCommands w gui ''get-pools-list'' cmd_payload =
           (Return (Text (concat fragments @ ''</div>''), None)
              (gui\<lparr>config := Some (c\<lparr>CoinType := fc_CoinType newConfig\<rparr>)\<rparr>),
            [])"
  using assms render_pools_concat [of exec pools fragments 0 "[]"]
  by (simp add: handleElectronCommands_def cmd_get_pools_list_def)

theorem get_pools_list_markup_witness:
  "handleElectronCommands (example_world (example_payload 1) five_pools) (example_gui None)
      ''get-pools-list'' []
   = (Return (Text (concat [''a'', ''b'', ''c'', ''d'', ''e''] @ ''</div>''), None)
        ((example_gui None)\<lparr>config := Some (example_config\<lparr>CoinType := ''BLOC''\<rparr>)\<rparr>),
      [])"
proof -
  let ?w = "example_world (example_payload 1) five_pools"
  have h1: "json_Unmarshal ?w [] = Inr (example_payload 1)"
    by (simp add: example_world_def)
  have h2: "config (example_gui None) = Some example_config"
    by (simp add: example_gui_def)
  have h3: "GetPoolList ?w (example_config\<lparr>CoinType := fc_CoinType (example_payload 1)\<rparr>)
              = Inr five_pools"
    by (simp add: example_world_def)
  have h4: "GetPoolTemplate ?w = Inr (\<lambda>poolData. Inr (pool_ID poolData))"
    by (simp add: example_world_def)
  have h5: "map (\<lambda>poolData. Inr (pool_ID poolData)) five_pools
              = map Inr [''a'', ''b'', ''c'', ''d'', ''e'']"
    by (simp add: five_pools_def example_pool_def)
  from get_pools_list_markup [OF h1 h2 h3 h4 h5] show ?thesis
    by (simp add: example_payload_def)
qed

subsection \<open>The pool endpoint\<close>

text \<open>
  Claim C4. When Apply-Configuration (\<^verbatim>\<open>configureMiner\<close>) reaches the choice of the pool
  address (the payload decoded, the miner type determined, the backend created, the pool
  descriptor fetched), the session's hardware type is the payload's, and the first effect
  is the call of the backend's \<^verbatim>\<open>WriteConfig\<close> with the CPU endpoint when the hardware type
  is 1, the GPU endpoint when it is 2, and the generic endpoint \<^verbatim>\<open>poolInfo.Config\<close> for every
  other value.
\<close>

theorem configureMiner_selects_endpoint:
  assumes "json_Unmarshal w cmd_payload = Inr newConfig"
    and "config gui = Some c0"
    and "DetermineMinerType w (filepath_Join w (workingDir gui) ''miner'') = Inr (minerType, minerPath)"
    and "c = (update_session c0 newConfig)\<lparr>Miner_cfg :=
               \<lparr>mc_Type = minerType, mc_Path = minerPath, mc_HardwareType = fc_HardwareType newConfig\<rparr>\<rparr>"
    and "CreateMiner w (Miner_cfg c) = Inr m"
    and "GetPool w c (fc_Pool newConfig) = Inr poolInfo"
  shows "HardwareType c = fc_HardwareType newConfig
         \<and> take 1 (snd (configureMiner w gui cmd_payload)) =
             [MinerWriteConfig
                (if HardwareType c = 1 then Cpu (pool_MiningPorts poolInfo)
                 else if HardwareType c = 2 then Gpu (pool_MiningPorts poolInfo)
                 else pool_Config poolInfo)
                (fc_Address newConfig) (fc_CoinAlgo newConfig) (fc_XmrigAlgo newConfig)
                (fc_XmrigVariant newConfig)
                \<lparr>Threads = fc_Threads newConfig, MaxUsage = fc_MaxCPU newConfig\<rparr>]"
proof -
  let ?c = "(update_session c0 newConfig)\<lparr>Miner_cfg :=
               \<lparr>mc_Type = minerType, mc_Path = minerPath,
                mc_HardwareType = HardwareType (update_session c0 newConfig)\<rparr>\<rparr>"
  have c_eq: "c = ?c"
    by (simp add: assms(4) update_session_def)
  have fields: "HardwareType c = fc_HardwareType newConfig"
    "Address c = fc_Address newConfig" "CoinAlgo c = fc_CoinAlgo newConfig"
    "XmrigAlgo c = fc_XmrigAlgo newConfig" "XmrigVariant c = fc_XmrigVariant newConfig"
    "PoolID c = fc_Pool newConfig"
    by (simp_all add: assms(4) update_session_def)
  have cm: "CreateMiner w (Miner_cfg ?c) = Inr m"
    using assms(5) c_eq by simp
  have gp: "GetPool w ?c (PoolID ?c) = Inr poolInfo"
    using assms(6) fields(6) c_eq by simp
  have run: "configureMiner w gui cmd_payload =
               write_and_save w (gui\<lparr>config := Some ?c, miner := Some m\<rparr>) ?c m newConfig poolInfo"
    unfolding configureMiner_def Let_def
    by (simp only: assms(1,2,3) cm gp sum.case option.case prod.case)
  have "take 1 (snd (write_and_save w (gui\<lparr>config := Some c, miner := Some m\<rparr>) c m newConfig poolInfo)) =
          [MinerWriteConfig (select_poolAddress c poolInfo) (Address c) (CoinAlgo c) (XmrigAlgo c)
             (XmrigVariant c) \<lparr>Threads = fc_Threads newConfig, MaxUsage = fc_MaxCPU newConfig\<rparr>]"
    by (simp add: write_and_save_def Let_def fatal_def split: option.splits)
  with run fields show ?thesis
    unfolding c_eq [symmetric] by (simp add: select_poolAddress_def)
qed

theorem configureMiner_selects_endpoint_witness:
  "take 1 (snd (configureMiner (example_world (example_payload 1) []) (example_gui None) [])) =
     [MinerWriteConfig ''p1:1111'' ''addr1'' ''cryptonight'' ''cn'' ''1'' \<lparr>Threads = 4, MaxUsage = 80\<rparr>]
   \<and> take 1 (snd (configureMiner (example_world (example_payload 2) []) (example_gui None) [])) =
     [MinerWriteConfig ''p1:2222'' ''addr1'' ''cryptonight'' ''cn'' ''1'' \<lparr>Threads = 4, MaxUsage = 80\<rparr>]
   \<and> take 1 (snd (configureMiner (example_world (example_payload 0) []) (example_gui None) [])) =
     [MinerWriteConfig ''p1:3333'' ''addr1'' ''cryptonight'' ''cn'' ''1'' \<lparr>Threads = 4, MaxUsage = 80\<rparr>]"
proof -
  have sel: "take 1 (snd (configureMiner (example_world (example_payload h) []) (example_gui None) [])) =
     [MinerWriteConfig
        (if h = 1 then ''p1:1111'' else if h = 2 then ''p1:2222'' else ''p1:3333'')
        ''addr1'' ''cryptonight'' ''cn'' ''1'' \<lparr>Threads = 4, MaxUsage = 80\<rparr>]" for h
  proof -
    let ?w = "example_world (example_payload h) []"
    let ?c = "(update_session example_config (example_payload h))\<lparr>Miner_cfg :=
               \<lparr>mc_Type = ''xmrig'', mc_Path = ''/opt/miner/xmrig'',
                mc_HardwareType = fc_HardwareType (example_payload h)\<rparr>\<rparr>"
    have h1: "json_Unmarshal ?w [] = Inr (example_payload h)"
      by (simp add: example_world_def)
    have h2: "config (example_gui None) = Some example_config"
      by (simp add: example_gui_def)
    have h3: "DetermineMinerType ?w (filepath_Join ?w (workingDir (example_gui None)) ''miner'')
                = Inr (''xmrig'', ''/opt/miner/xmrig'')"
      by (simp add: example_world_def example_gui_def)
    have h5: "CreateMiner ?w (Miner_cfg ?c) = Inr (example_miner None)"
      by (simp add: example_world_def)
    have h6: "GetPool ?w ?c (fc_Pool (example_payload h)) = Inr (example_pool ''pool1'')"
      by (simp add: example_world_def example_payload_def)
    from configureMiner_selects_endpoint [OF h1 h2 h3 refl h5 h6] show ?thesis
      by (simp add: example_payload_def example_pool_def update_session_def)
  qed
  from sel [of 1] sel [of 2] sel [of 0] show ?thesis by simp
qed

subsection \<open>The fresh session\<close>

text \<open>
  Claim C8. A coordinator that \<^verbatim>\<open>New\<close> creates from no persisted configuration has no
  backend and a session with hardware type 1 (CPU) and the identifier that \<^verbatim>\<open>uuid.New\<close>
  has just generated; a dispatch of \<^verbatim>\<open>get-config-file\<close> on it returns, with a nil error
  and the coordinator unchanged, the JSON encoding of the front-end configuration whose
  hardware type is 1 (the empty string if the encoder fails).
\<close>

theorem New_fresh_session:
  assumes "New w None apiEndpoint coinType coinAlgo xmrigAlgo xmrigVariant wd isDebug = Created gui"
  shows "miner gui = None
         \<and> config gui = Some
              \<lparr>APIEndpoint = apiEndpoint, CoinType = coinType, CoinAlgo = coinAlgo,
               XmrigAlgo = xmrigAlgo, XmrigVariant = xmrigVariant,
               Address = [], PoolID = [], HardwareType = 1, Mid = uuid_New w,
               Miner_cfg = \<lparr>mc_Type = [], mc_Path = [], mc_HardwareType = 0\<rparr>\<rparr>
         \<and> handleElectronCommands w gui ''get-config-file'' cmd_payload =
             (Return
                (Text (case json_Marshal_frontendConfig w
                              \<lparr>fc_Address = [], fc_Pool = [], fc_CoinType = coinType,
                               fc_CoinAlgo = coinAlgo, fc_XmrigAlgo = xmrigAlgo,
                               fc_XmrigVariant = xmrigVariant, fc_HardwareType = 1,
                               fc_Threads = 0, fc_MaxCPU = 0\<rparr> of
                         Inl err \<Rightarrow> [] | Inr dataBytes \<Rightarrow> dataBytes),
                 None)
                gui,
              [])"
  using assms
  by (auto simp add: New_def handleElectronCommands_def cmd_get_config_file_def
      split: if_splits sum.splits)

theorem New_fresh_session_witness:
  "New (example_world (example_payload 1) []) None
      ''https://api'' ''BLOC'' ''cryptonight'' ''cn'' ''1'' ''/opt'' False
   = Created example_fresh_gui
   \<and> handleElectronCommands (example_world (example_payload 1) []) example_fresh_gui
        ''get-config-file'' []
     = (Return (Text ''BLOC cpu'', None) example_fresh_gui, [])"
proof -
  have h: "New (example_world (example_payload 1) []) None
      ''https://api'' ''BLOC'' ''cryptonight'' ''cn'' ''1'' ''/opt'' False
   = Created example_fresh_gui"
    by (simp add: New_def example_world_def example_fresh_gui_def)
  from New_fresh_session [OF h, of "[]"] h show ?thesis
    by (simp add: example_world_def)
qed

subsection \<open>The local statistics loop\<close>

text \<open>
  Claim C5, at an input where the code departs from it. The guard of the out-of-cycle
  fetch is \<^verbatim>\<open>gui.lastHashrate == 0 && stats.Hashrate > 0\<close>, and \<^verbatim>\<open>gui.lastHashrate\<close> is
  overwritten by every answered query. When the backend reports the hash rates 5, 0 and 7,
  the first and the third emission each trigger a network fetch: two fetches in one session,
  the second one at an emission later than the first with a nonzero hash rate.
\<close>

theorem later_hashrate_fetches_again:
  "fetches (updateMiningStatsLoop (example_world (example_payload 1) []) 0
      [example_tick 5 5, example_tick 0 10, example_tick 7 15]
      (example_gui (Some (example_miner None)))) = 2
   \<and> fetches (updateMiningStatsLoop (example_world (example_payload 1) []) 0
      [example_tick 5 5, example_tick 0 10]
      (example_gui (Some (example_miner None)))) = 1"
  by (simp add: updateMiningStatsLoop_def fetches_def miningStatsTick_def example_tick_def
      example_gui_def example_config_def Let_def updateNetworkStats_def example_world_def Minute_def)

lemma miningStatsTick_hint:
  assumes "backend_hint_clear t"
    and "miningStatsTick w t gui lgu = (Return lgu' gui', es)"
  shows "if list_ex is_hinted es then tick_since t - lgu \<ge> Minute \<and> lgu' = tick_now t
         else lgu' = lgu"
proof (cases "miner gui")
  case None
  with assms(2) show ?thesis by (simp add: miningStatsTick_def)
next
  case (Some m)
  show ?thesis
  proof (cases "tick_stats t")
    case (Inl err)
    with Some assms(2) show ?thesis by (auto simp add: miningStatsTick_def)
  next
    case (Inr stats)
    with assms(1) have clear: "\<not> UpdateGraph stats"
      by (simp add: backend_hint_clear_def)
    have nf: "\<not> list_ex is_hinted (updateNetworkStats w g)" for g
      by (simp add: updateNetworkStats_def split: option.splits sum.splits)
    from Some Inr assms(2) clear nf show ?thesis
      by (auto simp add: miningStatsTick_def Let_def split: option.splits if_splits)
  qed
qed

text \<open>
  Claim C6. In every run of the local statistics loop over a backend that leaves
  \<^verbatim>\<open>UpdateGraph\<close> unset, an emission carries the hint only if the clock, read in that
  iteration, is at least one minute past the reading stored when the hint was last set
  (past the start of the loop, for the first hint). So two emissions less than a minute
  apart never both carry it.
\<close>

theorem update_graph_hint_throttled:
  assumes "list_all backend_hint_clear ticks"
  shows "spaced now (hint_times w ticks gui now)"
  using assms
proof (induction ticks arbitrary: gui now)
  case Nil
  show ?case by simp
next
  case (Cons t ts)
  obtain r es where step: "miningStatsTick w t gui now = (r, es)"
    by (cases "miningStatsTick w t gui now")
  show ?case
  proof (cases r)
    case (Return now' gui')
    from Cons.prems have clear: "backend_hint_clear t"
      and rest: "list_all backend_hint_clear ts"
      by simp_all
    from miningStatsTick_hint [OF clear step [unfolded Return]]
    have h: "if list_ex is_hinted es then tick_since t - now \<ge> Minute \<and> now' = tick_now t
             else now' = now" .
    from Cons.IH [OF rest, of now' gui'] have ih: "spaced now' (hint_times w ts gui' now')" .
    from h ih show ?thesis by (simp add: step Return split: if_splits)
  next
    case Exit
    then show ?thesis by (simp add: step)
  next
    case Panic
    then show ?thesis by (simp add: step)
  qed
qed

theorem update_graph_hint_throttled_witness:
  "list_all backend_hint_clear example_ticks
   \<and> hint_times (example_world (example_payload 1) []) example_ticks
        (example_gui (Some (example_miner None))) 0
      = [(61000000000, 61000000000), (125000000000, 125000000000)]
   \<and> spaced 0 (hint_times (example_world (example_payload 1) []) example_ticks
        (example_gui (Some (example_miner None))) 0)"
proof -
  have h: "list_all backend_hint_clear example_ticks"
    by (simp add: example_ticks_def example_tick_def backend_hint_clear_def)
  have v: "hint_times (example_world (example_payload 1) []) example_ticks
        (example_gui (Some (example_miner None))) 0
      = [(61000000000, 61000000000), (125000000000, 125000000000)]"
    by (simp add: example_ticks_def miningStatsTick_def example_tick_def
      example_gui_def example_config_def Let_def updateNetworkStats_def example_world_def Minute_def)
  have s: "spaced 0 (hint_times (example_world (example_payload 1) []) example_ticks
        (example_gui (Some (example_miner None))) 0)"
    by (rule update_graph_hint_throttled [OF h])
  from h v s show ?thesis by (intro conjI)
qed

subsection \<open>The last observed hash rate\<close>

text \<open>
  Claim C7, as stated, fails: the stored hash rate is not monotonic, and the loop itself
  brings it back to 0. After the reports 5, 3 and 0 it is 5, then 3, then 0, with no
  reconfiguration in between.
\<close>

theorem lastHashrate_decreases_counterexample:
  "hashrate_after (updateMiningStatsLoop (example_world (example_payload 1) []) 0
      [example_tick 5 5] (example_gui (Some (example_miner None)))) = Some 5
   \<and> hashrate_after (updateMiningStatsLoop (example_world (example_payload 1) []) 0
      [example_tick 5 5, example_tick 3 10] (example_gui (Some (example_miner None)))) = Some 3
   \<and> hashrate_after (updateMiningStatsLoop (example_world (example_payload 1) []) 0
      [example_tick 5 5, example_tick 3 10, example_tick 0 15]
      (example_gui (Some (example_miner None)))) = Some 0"
  by (simp add: updateMiningStatsLoop_def miningStatsTick_def example_tick_def
      example_gui_def example_config_def Let_def updateNetworkStats_def example_world_def Minute_def)

lemma miningStatsTick_state:
  assumes "miningStatsTick w t gui lgu = (Return lgu' gui', es)"
  shows "miner gui' = miner gui
         \<and> lastHashrate gui' =
             (if miner gui = None then lastHashrate gui
              else case tick_stats t of Inl err \<Rightarrow> lastHashrate gui | Inr s \<Rightarrow> Hashrate s)"
  using assms
  by (auto simp add: miningStatsTick_def Let_def split: option.splits sum.splits)

lemma miningStatsTicks_state:
  assumes "miningStatsTicks w ticks gui lgu = (Return lgu' gui', es)"
  shows "miner gui' = miner gui
         \<and> lastHashrate gui' =
             (if miner gui = None then lastHashrate gui
              else latest_hashrate (lastHashrate gui) ticks)"
  using assms
proof (induction ticks arbitrary: gui lgu es)
  case Nil
  then show ?case by simp
next
  case (Cons t ts)
  obtain r es1 where step: "miningStatsTick w t gui lgu = (r, es1)"
    by (cases "miningStatsTick w t gui lgu")
  from Cons.prems step obtain lgu1 gui1 where r: "r = Return lgu1 gui1"
    by (cases r) auto
  obtain r2 es2 where rest: "miningStatsTicks w ts gui1 lgu1 = (r2, es2)"
    by (cases "miningStatsTicks w ts gui1 lgu1")
  from Cons.prems step r rest have r2: "r2 = Return lgu' gui'" by simp
  from miningStatsTick_state [OF step [unfolded r]]
  have s1: "miner gui1 = miner gui"
    "lastHashrate gui1 =
       (if miner gui = None then lastHashrate gui
        else case tick_stats t of Inl err \<Rightarrow> lastHashrate gui | Inr s \<Rightarrow> Hashrate s)"
    by simp_all
  from Cons.IH [OF rest [unfolded r2]] s1 show ?case by simp
qed

lemma write_and_save_state:
  assumes "write_and_save w gui c m newConfig poolInfo = (Return u gui', es)"
  shows "gui' = gui"
  using assms by (auto simp add: write_and_save_def Let_def split: option.splits)

lemma configureMiner_lastHashrate:
  assumes "configureMiner w gui cmd_payload = (Return u gui', es)"
  shows "lastHashrate gui' = lastHashrate gui"
  using assms
  by (auto simp add: configureMiner_def Let_def split: sum.splits option.splits prod.splits
      dest!: write_and_save_state)

lemma startMiner_state:
  assumes "startMiner gui = (Return u gui', es)"
  shows "gui' = gui"
  using assms by (auto simp add: startMiner_def split: option.splits)

lemma stopMiner_state:
  assumes "stopMiner gui = (Return e gui', es)"
  shows "gui' = gui"
  using assms by (auto simp add: stopMiner_def split: option.splits)

lemma Run_state:
  assumes "Run bootstrap_Run gui = (Return e gui', es)"
  shows "gui' = gui"
  using assms by (auto simp add: Run_def split: option.splits dest: stopMiner_state)

lemma cmd_get_pools_list_lastHashrate:
  assumes "cmd_get_pools_list w gui cmd_payload = (Return r gui', es)"
  shows "lastHashrate gui' = lastHashrate gui"
  using assms
  by (auto simp add: cmd_get_pools_list_def Let_def split: sum.splits option.splits)

lemma cmd_save_configuration_lastHashrate:
  assumes "cmd_save_configuration w gui cmd_payload = (Return r gui', es)"
  shows "lastHashrate gui' = lastHashrate gui"
proof -
  obtain o1 es1 where c: "configureMiner w gui cmd_payload = (o1, es1)"
    by (cases "configureMiner w gui cmd_payload")
  with assms obtain u where "o1 = Return u gui'"
    by (cases o1) (auto simp add: cmd_save_configuration_def)
  with c configureMiner_lastHashrate show ?thesis by blast
qed

lemma cmd_start_miner_lastHashrate:
  assumes "cmd_start_miner gui name = (Return r gui', es)"
  shows "lastHashrate gui' = lastHashrate gui"
proof -
  obtain o1 es1 where c: "startMiner gui = (o1, es1)"
    by (cases "startMiner gui")
  with assms obtain u where "o1 = Return u gui'"
    by (cases o1) (auto simp add: cmd_start_miner_def)
  with c startMiner_state show ?thesis by blast
qed

lemma cmd_stop_miner_lastHashrate:
  assumes "cmd_stop_miner gui name = (Return r gui', es)"
  shows "lastHashrate gui' = lastHashrate gui"
proof -
  obtain o1 es1 where c: "stopMiner gui = (o1, es1)"
    by (cases "stopMiner gui")
  with assms obtain e where "o1 = Return e gui'"
    by (cases o1) (auto simp add: cmd_stop_miner_def split: option.splits)
  with c stopMiner_state show ?thesis by blast
qed

lemma cmd_simple_state:
  "cmd_get_username w gui = (Return r gui', es) \<Longrightarrow> gui' = gui"
  "cmd_get_miner_type w gui = (Return r gui', es) \<Longrightarrow> gui' = gui"
  "cmd_get_processing_config w gui = (Return r gui', es) \<Longrightarrow> gui' = gui"
  "cmd_get_coins_content w gui = (Return r gui', es) \<Longrightarrow> gui' = gui"
  "cmd_get_config_file w gui = (Return r gui', es) \<Longrightarrow> gui' = gui"
  by (auto simp add: cmd_get_username_def cmd_get_miner_type_def cmd_get_processing_config_def
      cmd_get_coins_content_def cmd_get_config_file_def Let_def
      split: sum.splits option.splits prod.splits)

lemma handleElectronCommands_lastHashrate:
  assumes "handleElectronCommands w gui name cmd_payload = (Return r gui', es)"
  shows "lastHashrate gui' = lastHashrate gui"
  using assms
  by (auto simp add: handleElectronCommands_def split: if_splits
      dest: cmd_simple_state cmd_get_pools_list_lastHashrate cmd_save_configuration_lastHashrate
        cmd_start_miner_lastHashrate cmd_stop_miner_lastHashrate)

lemma returned_pair:
  "\<exists>x g. fst r = Return x g \<Longrightarrow> \<exists>x g es. r = (Return x g, es)"
  by (cases r) auto

lemma hashrate_after_return:
  "r = (Return x g, es) \<Longrightarrow> lastHashrate g = h \<Longrightarrow> hashrate_after r = Some h"
  by simp

text \<open>
  Claim C7, amended. After a run of the local statistics loop, the last observed hash rate
  is the one reported by the most recent answered query of the backend, whether higher or
  lower than the one before (and is unchanged when no query was answered or no backend
  exists). No other operation of the coordinator changes it: Apply-Configuration, the
  dispatch of any command, the Start procedure, the Stop procedure and the shutdown in
  \<^verbatim>\<open>Run\<close> each leave it as it was whenever they return.
\<close>

theorem lastHashrate_is_latest:
  "(updateMiningStatsLoop w now ticks gui = (Return lgu gui1, es1) \<longrightarrow>
      lastHashrate gui1 =
        (if miner gui = None then lastHashrate gui
         else latest_hashrate (lastHashrate gui) ticks))
   \<and> (configureMiner w gui cmd_payload = (Return u gui2, es2) \<longrightarrow>
        lastHashrate gui2 = lastHashrate gui)
   \<and> (handleElectronCommands w gui name cmd_payload = (Return r gui3, es3) \<longrightarrow>
        lastHashrate gui3 = lastHashrate gui)
   \<and> (startMiner gui = (Return u' gui4, es4) \<longrightarrow> lastHashrate gui4 = lastHashrate gui)
   \<and> (stopMiner gui = (Return e gui5, es5) \<longrightarrow> lastHashrate gui5 = lastHashrate gui)
   \<and> (Run bootstrap_Run gui = (Return e' gui6, es6) \<longrightarrow> lastHashrate gui6 = lastHashrate gui)"
proof (intro conjI impI)
  assume "updateMiningStatsLoop w now ticks gui = (Return lgu gui1, es1)"
  from miningStatsTicks_state [OF this [unfolded updateMiningStatsLoop_def]]
  show "lastHashrate gui1 =
        (if miner gui = None then lastHashrate gui
         else latest_hashrate (lastHashrate gui) ticks)"
    by simp
next
  assume "configureMiner w gui cmd_payload = (Return u gui2, es2)"
  then show "lastHashrate gui2 = lastHashrate gui"
    by (rule configureMiner_lastHashrate)
next
  assume "handleElectronCommands w gui name cmd_payload = (Return r gui3, es3)"
  then show "lastHashrate gui3 = lastHashrate gui"
    by (rule handleElectronCommands_lastHashrate)
next
  assume "startMiner gui = (Return u' gui4, es4)"
  then show "lastHashrate gui4 = lastHashrate gui"
    by (auto dest: startMiner_state)
next
  assume "stopMiner gui = (Return e gui5, es5)"
  then show "lastHashrate gui5 = lastHashrate gui"
    by (auto dest: stopMiner_state)
next
  assume "Run bootstrap_Run gui = (Return e' gui6, es6)"
  then show "lastHashrate gui6 = lastHashrate gui"
    by (auto dest: Run_state)
qed

theorem lastHashrate_is_latest_witness:
  "hashrate_after (updateMiningStatsLoop (example_world (example_payload 1) []) 0
      [example_tick 7 5, example_tick 3 10] (example_running_gui 5)) = Some 3
   \<and> latest_hashrate (lastHashrate (example_running_gui 5))
        [example_tick 7 5, example_tick 3 10] = 3
   \<and> hashrate_after (configureMiner (example_world (example_payload 1) [])
        (example_running_gui 5) []) = Some 5
   \<and> hashrate_after (handleElectronCommands (example_world (example_payload 1) [])
        (example_running_gui 5) ''save-configuration'' []) = Some 5
   \<and> hashrate_after (handleElectronCommands (example_world (example_payload 1) [])
        (example_running_gui 5) ''stop-miner'' []) = Some 5
   \<and> hashrate_after (handleElectronCommands (example_world (example_payload 1) [])
        (example_running_gui 5) ''get-coins-content'' []) = Some 5
   \<and> hashrate_after (startMiner (example_running_gui 5)) = Some 5
   \<and> hashrate_after (stopMiner (example_running_gui 5)) = Some 5
   \<and> hashrate_after (Run None (example_running_gui 5)) = Some 5"
proof -
  let ?w = "example_world (example_payload 1) []"
  let ?g = "example_running_gui 5"
  let ?ts = "[example_tick 7 5, example_tick 3 10]"
  note defs = example_running_gui_def example_gui_def example_config_def example_miner_def
    example_world_def example_tick_def example_payload_def
  have g5: "lastHashrate ?g = 5" and m: "miner ?g \<noteq> None"
    by (simp_all add: defs)
  have "\<exists>x g. fst (updateMiningStatsLoop ?w 0 ?ts ?g) = Return x g"
    by (simp add: updateMiningStatsLoop_def miningStatsTick_def Let_def updateNetworkStats_def
        Minute_def defs)
  from returned_pair [OF this] obtain lgu g1 es1
    where h1: "updateMiningStatsLoop ?w 0 ?ts ?g = (Return lgu g1, es1)"
    by blast
  have "\<exists>x g. fst (configureMiner ?w ?g []) = Return x g"
    by (simp add: configureMiner_def write_and_save_def Let_def defs)
  from returned_pair [OF this] obtain u2 g2 es2
    where h2: "configureMiner ?w ?g [] = (Return u2 g2, es2)"
    by blast
  have "\<exists>x g. fst (handleElectronCommands ?w ?g ''save-configuration'' []) = Return x g"
    by (simp add: handleElectronCommands_def cmd_save_configuration_def configureMiner_def
        write_and_save_def Let_def defs)
  from returned_pair [OF this] obtain r3 g3 es3
    where h3: "handleElectronCommands ?w ?g ''save-configuration'' [] = (Return r3 g3, es3)"
    by blast
  have "\<exists>x g. fst (handleElectronCommands ?w ?g ''stop-miner'' []) = Return x g"
    by (simp add: handleElectronCommands_def cmd_stop_miner_def stopMiner_def defs)
  from returned_pair [OF this] obtain r4 g4 es4
    where h4: "handleElectronCommands ?w ?g ''stop-miner'' [] = (Return r4 g4, es4)"
    by blast
  have "\<exists>x g. fst (handleElectronCommands ?w ?g ''get-coins-content'' []) = Return x g"
    by (simp add: handleElectronCommands_def cmd_get_coins_content_def defs)
  from returned_pair [OF this] obtain r5 g5' es5
    where h5: "handleElectronCommands ?w ?g ''get-coins-content'' [] = (Return r5 g5', es5)"
    by blast
  have "\<exists>x g. fst (startMiner ?g) = Return x g"
    by (simp add: startMiner_def defs)
  from returned_pair [OF this] obtain u6 g6 es6
    where h6: "startMiner ?g = (Return u6 g6, es6)"
    by blast
  have "\<exists>x g. fst (stopMiner ?g) = Return x g"
    by (simp add: stopMiner_def defs)
  from returned_pair [OF this] obtain e7 g7 es7
    where h7: "stopMiner ?g = (Return e7 g7, es7)"
    by blast
  have "\<exists>x g. fst (Run None ?g) = Return x g"
    by (simp add: Run_def stopMiner_def defs)
  from returned_pair [OF this] obtain e8 g8 es8
    where h8: "Run None ?g = (Return e8 g8, es8)"
    by blast
  have l: "latest_hashrate (lastHashrate ?g) ?ts = 3"
    by (simp add: defs)
  from lastHashrate_is_latest [where w = ?w and now = 0 and ticks = ?ts and gui = ?g
      and lgu = lgu and ?gui1.0 = g1 and ?es1.0 = es1 and cmd_payload = "[]" and u = u2
      and ?gui2.0 = g2 and ?es2.0 = es2 and name = "''save-configuration''" and r = r3
      and ?gui3.0 = g3 and ?es3.0 = es3 and u' = u6 and ?gui4.0 = g6 and ?es4.0 = es6
      and e = e7 and ?gui5.0 = g7 and ?es5.0 = es7 and bootstrap_Run = None and e' = e8
      and ?gui6.0 = g8 and ?es6.0 = es8]
    h1 h2 h3 h6 h7 h8 m l g5
  have a: "lastHashrate g1 = 3" "lastHashrate g2 = 5" "lastHashrate g3 = 5"
    "lastHashrate g6 = 5" "lastHashrate g7 = 5" "lastHashrate g8 = 5"
    by simp_all
  from lastHashrate_is_latest [where w = ?w and gui = ?g and cmd_payload = "[]"
      and name = "''stop-miner''" and r = r4 and ?gui3.0 = g4 and ?es3.0 = es4] h4 g5
  have b: "lastHashrate g4 = 5"
    by simp
  from lastHashrate_is_latest [where w = ?w and gui = ?g and cmd_payload = "[]"
      and name = "''get-coins-content''" and r = r5 and ?gui3.0 = g5' and ?es3.0 = es5] h5 g5
  have c: "lastHashrate g5' = 5"
    by simp
  show ?thesis
    using l hashrate_after_return [OF h1 a(1)] hashrate_after_return [OF h2 a(2)]
      hashrate_after_return [OF h3 a(3)] hashrate_after_return [OF h4 b]
      hashrate_after_return [OF h5 c] hashrate_after_return [OF h6 a(4)]
      hashrate_after_return [OF h7 a(5)] hashrate_after_return [OF h8 a(6)]
    by (intro conjI)
qed

end
